theory Spec2Isabelle
  imports Main
begin

section \<open>Python strings\<close>

text \<open>
  A Python \<open>str\<close> is a sequence of code points. It is modelled by \<open>string\<close>, one
  \<open>char\<close> per code point, which covers the code points below 256 (ASCII and Latin-1);
  \<open>length\<close> then counts what Python's \<open>len\<close> counts.
\<close>

definition strip :: "string \<Rightarrow> string \<Rightarrow> string" where
  \<comment> \<open>\<open>s.strip(chars)\<close>: drop the leading and the trailing characters that occur in \<open>chars\<close>.\<close>
  "strip s chars =
     rev (dropWhile (\<lambda>c. c \<in> set chars) (rev (dropWhile (\<lambda>c. c \<in> set chars) s)))"

definition replace_char :: "char \<Rightarrow> char \<Rightarrow> string \<Rightarrow> string" where
  \<comment> \<open>\<open>s.replace(old, new)\<close> for one-character \<open>old\<close> and \<open>new\<close>.\<close>
  "replace_char old new s = map (\<lambda>c. if c = old then new else c) s"

definition lower_char :: "char \<Rightarrow> char" where
  \<comment> \<open>\<open>A\<close>..\<open>Z\<close> and the Latin-1 capitals 0xC0..0xDE (0xD7 is the multiplication sign)
      move up by 32; every other code point below 256 is its own lower case.\<close>
  "lower_char c =
     (let n = (of_char c :: nat)
      in if (65 \<le> n \<and> n \<le> 90) \<or> (192 \<le> n \<and> n \<le> 222 \<and> n \<noteq> 215)
         then char_of (n + 32) else c)"

definition lower :: "string \<Rightarrow> string" where
  "lower s = map lower_char s"

definition upper_char :: "char \<Rightarrow> string" where
  \<comment> \<open>\<open>a\<close>..\<open>z\<close> and 0xE0..0xFE (0xF7 is the division sign) move down by 32; the sharp s
      (0xDF) becomes \<open>SS\<close>. The upper cases of 0xB5 and 0xFF are U+039C and U+0178, which
      have no \<open>char\<close>; they are kept as they are, and like their images they are not
      ASCII letters.\<close>
  "upper_char c =
     (let n = (of_char c :: nat)
      in if (97 \<le> n \<and> n \<le> 122) \<or> (224 \<le> n \<and> n \<le> 254 \<and> n \<noteq> 247)
         then [char_of (n - 32)]
         else if n = 223 then ''SS'' else [c])"

definition upper :: "string \<Rightarrow> string" where
  "upper s = concat (map upper_char s)"

definition slice0 :: "nat \<Rightarrow> string \<Rightarrow> string" where
  \<comment> \<open>The slice \<open>s[0:n]\<close> for a bound \<open>n \<ge> 0\<close>.\<close>
  "slice0 n s = take n s"

definition quote :: "char" where
  "quote = CHR 0x27"

definition newline :: "char" where
  "newline = CHR 0x0A"

definition repr_str :: "string \<Rightarrow> string" where
  \<comment> \<open>\<open>repr\<close> of a \<open>str\<close> of printable characters without quote or backslash.\<close>
  "repr_str s = [quote] @ s @ [quote]"

fun join_str :: "string \<Rightarrow> string list \<Rightarrow> string" where
  "join_str sep [] = []"
| "join_str sep [x] = x"
| "join_str sep (x # y # ys) = x @ sep @ join_str sep (y # ys)"

definition repr_list :: "string list \<Rightarrow> string" where
  \<comment> \<open>\<open>repr\<close> of a list of such strings, which is what \<open>'{}'.format(list)\<close> prints.\<close>
  "repr_list xs = ''['' @ join_str '', '' (map repr_str xs) @ '']''"

fun digits_of :: "nat \<Rightarrow> string" where
  "digits_of n =
     (if n < 10 then [char_of (48 + n)] else digits_of (n div 10) @ [char_of (48 + n mod 10)])"

subsection \<open>\<open>int(str)\<close>\<close>

text \<open>
  \<open>int(s)\<close> in base 10: surrounding white space is skipped, then an optional sign, then
  decimal digits, where single underscores may stand between digits. Anything else raises
  \<open>ValueError\<close>, here \<open>None\<close>.
\<close>

definition int_space :: "char \<Rightarrow> bool" where
  "int_space c = ((of_char c :: nat) \<in> {9, 10, 11, 12, 13, 32, 133, 160})"

definition is_digit :: "char \<Rightarrow> bool" where
  "is_digit c = (48 \<le> (of_char c :: nat) \<and> (of_char c :: nat) \<le> 57)"

definition digit_val :: "char \<Rightarrow> nat" where
  "digit_val c = (of_char c :: nat) - 48"

fun more_digits :: "nat \<Rightarrow> string \<Rightarrow> nat option" where
  "more_digits acc [] = Some acc"
| "more_digits acc (c # cs) =
     (if is_digit c then more_digits (10 * acc + digit_val c) cs
      else if c = CHR ''_'' then
        (case cs of
           [] \<Rightarrow> None
         | d # ds \<Rightarrow> if is_digit d then more_digits (10 * acc + digit_val d) ds else None)
      else None)"

definition int_digits :: "string \<Rightarrow> nat option" where
  "int_digits s =
     (case s of
        [] \<Rightarrow> None
      | c # cs \<Rightarrow> if is_digit c then more_digits (digit_val c) cs else None)"

definition py_int :: "string \<Rightarrow> int option" where
  "py_int s =
     (let t = rev (dropWhile int_space (rev (dropWhile int_space s)))
      in case t of
           [] \<Rightarrow> None
         | c # cs \<Rightarrow>
             if c = CHR ''-'' then map_option (\<lambda>n. - int n) (int_digits cs)
             else if c = CHR ''+'' then map_option int (int_digits cs)
             else map_option int (int_digits t))"

section \<open>Errors\<close>

datatype error =
    BadParameter string
  | ClickException string
  | UnboundLocalError string
  | FileExistsError
  | FileNotFoundError
  | IsADirectoryError
  | NotADirectoryError

section \<open>Categories\<close>

datatype CategoryChange =
  ADDED | FIXED | CHANGED | DEPRECATED | REMOVED | SECURITY | PERFORMANCE | OTHER

fun member_name :: "CategoryChange \<Rightarrow> string" where
  "member_name ADDED = ''ADDED''"
| "member_name FIXED = ''FIXED''"
| "member_name CHANGED = ''CHANGED''"
| "member_name DEPRECATED = ''DEPRECATED''"
| "member_name REMOVED = ''REMOVED''"
| "member_name SECURITY = ''SECURITY''"
| "member_name PERFORMANCE = ''PERFORMANCE''"
| "member_name OTHER = ''OTHER''"

fun member_value :: "CategoryChange \<Rightarrow> int" where
  "member_value ADDED = 1"
| "member_value FIXED = 2"
| "member_value CHANGED = 3"
| "member_value DEPRECATED = 4"
| "member_value REMOVED = 5"
| "member_value SECURITY = 6"
| "member_value PERFORMANCE = 7"
| "member_value OTHER = 8"

fun category :: "CategoryChange \<Rightarrow> string" where
  "category ADDED = ''added''"
| "category FIXED = ''fixed''"
| "category CHANGED = ''changed''"
| "category DEPRECATED = ''deprecated''"
| "category REMOVED = ''removed''"
| "category SECURITY = ''security''"
| "category PERFORMANCE = ''performance''"
| "category OTHER = ''other''"

fun member_title :: "CategoryChange \<Rightarrow> string" where
  "member_title ADDED = ''New feature''"
| "member_title FIXED = ''Bug fix''"
| "member_title CHANGED = ''Feature change''"
| "member_title DEPRECATED = ''New deprecation''"
| "member_title REMOVED = ''Feature removal''"
| "member_title SECURITY = ''Security fix''"
| "member_title PERFORMANCE = ''Performance improvement''"
| "member_title OTHER = ''Other''"

definition members :: "CategoryChange list" where
  \<comment> \<open>Iterating over the enumeration yields the members in definition order.\<close>
  "members = [ADDED, FIXED, CHANGED, DEPRECATED, REMOVED, SECURITY, PERFORMANCE, OTHER]"

definition values_list :: "string list" where
  \<comment> \<open>\<open>CategoryChange.values()\<close>\<close>
  "values_list = map category members"

definition by_value :: "int \<Rightarrow> CategoryChange option" where
  \<comment> \<open>\<open>CategoryChange(n)\<close>; \<open>None\<close> stands for the \<open>ValueError\<close>.\<close>
  "by_value n = find (\<lambda>m. member_value m = n) members"

definition by_name :: "string \<Rightarrow> CategoryChange option" where
  \<comment> \<open>\<open>CategoryChange[s]\<close>; \<open>None\<close> stands for the \<open>KeyError\<close>.\<close>
  "by_name s = find (\<lambda>m. member_name m = s) members"

section \<open>Validation\<close>

definition title_strip_chars :: "string" where
  \<comment> \<open>The argument of \<open>strip\<close> in \<open>validate_title\<close>: line feed, carriage return, space.\<close>
  "title_strip_chars = [CHR 0x0A, CHR 0x0D, CHR '' '']"

definition validate_title :: "string \<Rightarrow> error + string" where
  "validate_title v =
     (let v' = strip v title_strip_chars
      in if v' = [] then Inl (BadParameter ''title cannot be empty'') else Inr v')"

definition validate_category :: "string \<Rightarrow> error + string" where
  "validate_category v =
     (case py_int v of
        None \<Rightarrow>
          (case by_name (upper v) of
             None \<Rightarrow> Inl (BadParameter (''valid options are '' @ repr_list values_list))
           | Some _ \<Rightarrow> Inr v)
      | Some n \<Rightarrow>
          (case by_value n of
             Some m \<Rightarrow> Inr (category m)
           | None \<Rightarrow>
               Inl (BadParameter
                 (''please select an index between 1 and '' @ digits_of (length members)))))"

section \<open>Paths\<close>

text \<open>The functions of \<open>os.path\<close> (POSIX flavour) that the program calls.\<close>

definition os_path_join :: "string \<Rightarrow> string \<Rightarrow> string" where
  "os_path_join a p =
     (if p \<noteq> [] \<and> hd p = CHR ''/'' then p
      else if a = [] \<or> last a = CHR ''/'' then a @ p
      else a @ ''/'' @ p)"

definition os_path_basename :: "string \<Rightarrow> string" where
  \<comment> \<open>Everything after the last slash.\<close>
  "os_path_basename p = rev (takeWhile (\<lambda>c. c \<noteq> CHR ''/'') (rev p))"

definition os_path_dirname :: "string \<Rightarrow> string" where
  \<comment> \<open>Everything up to the last slash, without its trailing slashes unless it is all slashes.\<close>
  "os_path_dirname p =
     (let head = rev (dropWhile (\<lambda>c. c \<noteq> CHR ''/'') (rev p))
      in if head \<noteq> [] \<and> \<not> list_all (\<lambda>c. c = CHR ''/'') head
         then rev (dropWhile (\<lambda>c. c = CHR ''/'') (rev head))
         else head)"

section \<open>File names\<close>

definition YAML_FILE_EXTENSION :: "string" where
  "YAML_FILE_EXTENSION = ''.yml''"

definition MAX_FILENAME_LENGTH :: "nat" where
  "MAX_FILENAME_LENGTH = 99 - length YAML_FILE_EXTENSION"

definition determine_filename :: "string \<Rightarrow> string" where
  \<comment> \<open>The local variable \<open>filename\<close> of \<open>determine_filepath\<close>, after its second assignment.\<close>
  "determine_filename title =
     (let filename = lower (replace_char CHR '' '' CHR ''-'' title)
      in slice0 (MAX_FILENAME_LENGTH - 1) filename @ YAML_FILE_EXTENSION)"

definition determine_filepath :: "string \<Rightarrow> string \<Rightarrow> string" where
  "determine_filepath dirpath title = os_path_join dirpath (determine_filename title)"

section \<open>Entries and their serialization\<close>

record ChangelogEntry =
  title :: string
  category_key :: string
  author :: "string option"
  pr :: "string option"
  notes' :: "string option"

definition to_dict :: "ChangelogEntry \<Rightarrow> (string \<times> string option) list" where
  \<comment> \<open>A Python dict keeps insertion order: an association list, \<open>None\<close> for Python's \<open>None\<close>.\<close>
  "to_dict e =
     [(''title'', Some (title e)),
      (''category'', Some (category_key e)),
      (''author'', author e),
      (''pull_request'', pr e),
      (''notes'', notes' e)]"

text \<open>
  \<open>yaml.dump(contents, sort_keys=False, explicit_start=True)\<close> belongs to the PyYAML
  library. For a mapping from plain keys to strings or \<open>None\<close> it writes the document
  start marker and then one line per item, in the order of the mapping, \<open>None\<close> as
  \<open>null\<close>. How a string value is written (plain, quoted, folded) is the library's
  business: that is the parameter \<open>scalar\<close>.
\<close>

definition yaml_value :: "(string \<Rightarrow> string) \<Rightarrow> string option \<Rightarrow> string" where
  "yaml_value scalar v = (case v of None \<Rightarrow> ''null'' | Some s \<Rightarrow> scalar s)"

definition yaml_item :: "(string \<Rightarrow> string) \<Rightarrow> string \<times> string option \<Rightarrow> string" where
  "yaml_item scalar kv = fst kv @ '': '' @ yaml_value scalar (snd kv) @ [newline]"

definition yaml_dump :: "(string \<Rightarrow> string) \<Rightarrow> (string \<times> string option) list \<Rightarrow> string" where
  "yaml_dump scalar contents = ''---'' @ [newline] @ concat (map (yaml_item scalar) contents)"

definition create_changelog_entry_content ::
  "(string \<Rightarrow> string) \<Rightarrow> (string \<Rightarrow> string option) \<Rightarrow>
   string \<Rightarrow> string \<Rightarrow> string option \<Rightarrow> string option \<Rightarrow> bool \<Rightarrow> string option" where
  \<comment> \<open>\<open>edit\<close> is \<open>click.edit\<close>: the edited text, or \<open>None\<close> when the editor is left
      without saving. The entry is built without notes.\<close>
  "create_changelog_entry_content scalar edit t c a p run_editor =
     (let entry = \<lparr>title = t, category_key = c, author = a, pr = p, notes' = None\<rparr>;
          contents = to_dict entry;
          stream = yaml_dump scalar contents
      in if run_editor then edit stream else Some stream)"

section \<open>The file system\<close>

datatype node = File string | Dir

datatype open_mode = W | X

record filesystem =
  nodes :: "string \<Rightarrow> node option"
  opened :: "(string \<times> open_mode) list"

text \<open>
  \<open>nodes\<close> maps a path, as it is passed to \<open>open\<close>, to what is there; \<open>opened\<close> is the
  log of the calls of \<open>open\<close>, the only access to the file system that writing an entry
  makes. \<open>open_write\<close> is \<open>with open(path, mode) as f: f.write(content)\<close>: mode \<open>x\<close>
  refuses a path that exists, mode \<open>w\<close> truncates a file that exists, and both need the
  directory of the path.
\<close>

definition parent_error :: "filesystem \<Rightarrow> string \<Rightarrow> error option" where
  "parent_error fs path =
     (let d = os_path_dirname path
      in if d = [] then None
         else case nodes fs d of
                None \<Rightarrow> Some FileNotFoundError
              | Some (File _) \<Rightarrow> Some NotADirectoryError
              | Some Dir \<Rightarrow> None)"

definition create_file :: "filesystem \<Rightarrow> string \<Rightarrow> string \<Rightarrow> (error + unit) \<times> filesystem" where
  "create_file fs path content =
     (case parent_error fs path of
        Some e \<Rightarrow> (Inl e, fs)
      | None \<Rightarrow> (Inr (), fs\<lparr>nodes := (nodes fs)(path \<mapsto> File content)\<rparr>))"

definition open_write ::
  "filesystem \<Rightarrow> string \<Rightarrow> open_mode \<Rightarrow> string \<Rightarrow> (error + unit) \<times> filesystem" where
  "open_write fs path mode content =
     (let fs1 = fs\<lparr>opened := opened fs @ [(path, mode)]\<rparr>
      in case mode of
           X \<Rightarrow>
             (case nodes fs1 path of
                Some _ \<Rightarrow> (Inl FileExistsError, fs1)
              | None \<Rightarrow> create_file fs1 path content)
         | W \<Rightarrow>
             (case nodes fs1 path of
                Some Dir \<Rightarrow> (Inl IsADirectoryError, fs1)
              | Some (File _) \<Rightarrow> (Inr (), fs1\<lparr>nodes := (nodes fs1)(path \<mapsto> File content)\<rparr>)
              | None \<Rightarrow> create_file fs1 path content))"

section \<open>Writing an entry\<close>

definition empty_entry_msg :: "string" where
  "empty_entry_msg = ''Aborting due to empty entry content''"

definition exists_msg :: "string \<Rightarrow> string" where
  "exists_msg filename =
     ''Changelog entry '' @ filename @ '' already exists. Use '' @ [quote] @ ''--overwrite''
       @ [quote] @ '' to replace it.''"

definition created_msg :: "string \<Rightarrow> string" where
  "created_msg filename = ''Changelog entry '' @ [quote] @ filename @ [quote] @ '' created''"

definition store_entry ::
  "filesystem \<Rightarrow> string \<Rightarrow> string \<Rightarrow> string \<Rightarrow> bool \<Rightarrow> (error + string) \<times> filesystem" where
  \<comment> \<open>The body of \<open>write_changelog_entry\<close> after the check of the content. Only
      \<open>FileExistsError\<close> is caught; any other error of \<open>open\<close> goes to the caller. The
      value on success is the line that is echoed.\<close>
  "store_entry fs dirpath t content overwrite =
     (let filepath = determine_filepath dirpath t;
          mode = (if overwrite then W else X);
          filename = os_path_basename filepath
      in case open_write fs filepath mode content of
           (Inl e, fs') \<Rightarrow>
             (if e = FileExistsError then (Inl (ClickException (exists_msg filename)), fs')
              else (Inl e, fs'))
         | (Inr _, fs') \<Rightarrow> (Inr (created_msg filename), fs'))"

definition write_changelog_entry ::
  "filesystem \<Rightarrow> string \<Rightarrow> string \<Rightarrow> string option \<Rightarrow> bool \<Rightarrow> (error + string) \<times> filesystem"
  where
  \<comment> \<open>\<open>not content\<close> holds for \<open>None\<close> and for the empty string.\<close>
  "write_changelog_entry fs dirpath t content overwrite =
     (case content of
        None \<Rightarrow> (Inl (ClickException empty_entry_msg), fs)
      | Some c \<Rightarrow>
          if c = [] then (Inl (ClickException empty_entry_msg), fs)
          else store_entry fs dirpath t c overwrite)"

section \<open>The root of the repository\<close>

text \<open>
  \<open>git\<close> stands for \<open>GitHandler._exec\<close>: the decoded standard output of a git command.
  A local variable of Python is unbound until it is assigned, and reading it then raises
  \<open>UnboundLocalError\<close>: \<open>basepath\<close> is an \<open>option\<close>, assigned in one branch only.
\<close>

definition get_root_path :: "(string list \<Rightarrow> string) \<Rightarrow> string" where
  "get_root_path git = strip (git [''git'', ''rev-parse'', ''--show-toplevel'']) [newline]"

definition get_submodule_root_path :: "(string list \<Rightarrow> string) \<Rightarrow> string" where
  "get_submodule_root_path git =
     strip (git [''git'', ''rev-parse'', ''--show-superproject-working-tree'']) [newline]"

definition root_path :: "(string list \<Rightarrow> string) \<Rightarrow> error + string" where
  "root_path git =
     (let path' = get_submodule_root_path git;
          basepath = (if path' = [] then Some (get_root_path git) else None)
      in case basepath of
           None \<Rightarrow> Inl (UnboundLocalError ''basepath'')
         | Some b \<Rightarrow> Inr b)"

definition submodule_git :: "string list \<Rightarrow> string" where
  \<comment> \<open>What git prints in a submodule checked out at \<open>/home/user/super/sub\<close>.\<close>
  "submodule_git cmd =
     (if cmd = [''git'', ''rev-parse'', ''--show-superproject-working-tree'']
      then ''/home/user/super'' @ [newline]
      else if cmd = [''git'', ''rev-parse'', ''--show-toplevel'']
      then ''/home/user/super/sub'' @ [newline]
      else [])"

definition determine_changelog_entries_dirpath :: "(string list \<Rightarrow> string) \<Rightarrow> error + string" where
  "determine_changelog_entries_dirpath git =
     (case root_path git of
        Inl e \<Rightarrow> Inl e
      | Inr basepath \<Rightarrow> Inr (os_path_join (os_path_join basepath ''releases'') ''unreleased''))"

section \<open>Facts about the string functions\<close>








lemma strip_decomp:
  "\<exists>pre suf. s = pre @ strip s cs @ suf \<and> set pre \<subseteq> set cs \<and> set suf \<subseteq> set cs"
proof -
  let ?P = "\<lambda>c. c \<in> set cs"
  let ?m = "dropWhile ?P s"
  have a: "s = takeWhile ?P s @ ?m" by simp
  have b: "rev ?m = takeWhile ?P (rev ?m) @ dropWhile ?P (rev ?m)" by simp
  have "?m = rev (rev ?m)" by simp
  also have "\<dots> = rev (dropWhile ?P (rev ?m)) @ rev (takeWhile ?P (rev ?m))"
    by (subst b) (simp only: rev_append)
  finally have c: "?m = strip s cs @ rev (takeWhile ?P (rev ?m))"
    by (simp add: strip_def)
  have d: "set (takeWhile ?P s) \<subseteq> set cs"
    by (auto dest: set_takeWhileD)
  have e: "set (rev (takeWhile ?P (rev ?m))) \<subseteq> set cs"
    by (auto dest: set_takeWhileD)
  from a c have "s = takeWhile ?P s @ strip s cs @ rev (takeWhile ?P (rev ?m))"
    by simp
  with d e show ?thesis by blast
qed

lemma strip_ends:
  "strip s cs \<noteq> [] \<Longrightarrow> hd (strip s cs) \<notin> set cs \<and> last (strip s cs) \<notin> set cs"
proof -
  let ?P = "\<lambda>c. c \<in> set cs"
  let ?m = "dropWhile ?P s"
  let ?r = "dropWhile ?P (rev ?m)"
  assume ne: "strip s cs \<noteq> []"
  then have r: "?r \<noteq> []" by (simp add: strip_def)
  then have l: "last (strip s cs) \<notin> set cs"
    using hd_dropWhile [of ?P "rev ?m"] by (simp add: strip_def last_rev)
  have m: "?m \<noteq> []"
  proof
    assume "?m = []"
    then have "?r = []" by (simp only: rev.simps(1) dropWhile.simps(1))
    with r show False by blast
  qed
  then have hm: "hd ?m \<notin> set cs" using hd_dropWhile [of ?P s] by simp
  have "rev ?m = takeWhile ?P (rev ?m) @ ?r" by simp
  then have "?m = rev ?r @ rev (takeWhile ?P (rev ?m))"
    by (metis rev_append rev_rev_ident)
  with r have "hd ?m = hd (rev ?r)" by (metis hd_append2 rev_is_Nil_conv)
  with hm have "hd (strip s cs) \<notin> set cs" by (simp add: strip_def)
  with l show ?thesis by simp
qed

lemma strip_empty_iff: "strip s cs = [] \<longleftrightarrow> set s \<subseteq> set cs"
proof
  assume "strip s cs = []"
  with strip_decomp [of s cs] show "set s \<subseteq> set cs"
    by (metis append_Nil le_sup_iff set_append)
next
  assume "set s \<subseteq> set cs"
  then have d: "dropWhile (\<lambda>c. c \<in> set cs) s = []"
    by (simp add: dropWhile_eq_Nil_conv subset_iff)
  show "strip s cs = []"
    unfolding strip_def d by (simp only: rev.simps(1) dropWhile.simps(1))
qed

section \<open>Properties of root resolution\<close>

lemma root_path_cases:
  "root_path git =
     (if get_submodule_root_path git = [] then Inr (get_root_path git)
      else Inl (UnboundLocalError ''basepath''))"
  by (simp add: root_path_def Let_def)

lemma submodule_git_super: "get_submodule_root_path submodule_git = ''/home/user/super''"
  by (simp add: get_submodule_root_path_def submodule_git_def strip_def newline_def)

text \<open>
  C1. The claim: when the superproject query yields a non-empty path, the resolver returns
  that path, and it falls back to the top level of the current repository only when the
  query yields nothing. In a submodule the query yields \<open>/home/user/super\<close>, and
  \<open>root_path\<close> returns nothing: it reads \<open>basepath\<close>, which only the fallback branch
  assigns, and raises \<open>UnboundLocalError\<close>.
\<close>

theorem root_path_in_submodule_raises:
  "get_submodule_root_path submodule_git = ''/home/user/super'' \<and>
   root_path submodule_git = Inl (UnboundLocalError ''basepath'')"
  by (simp add: root_path_cases submodule_git_super)

section \<open>Properties of category validation\<close>

lemma validate_category_name:
  "py_int v = None \<Longrightarrow> by_name (upper v) = Some m \<Longrightarrow> validate_category v = Inr v"
  by (simp add: validate_category_def)

lemma validate_category_index:
  "py_int v = Some n \<Longrightarrow> by_value n = Some m \<Longrightarrow> validate_category v = Inr (category m)"
  by (simp add: validate_category_def)

text \<open>
  C2. The claim: whatever form an accepted category input has, the value returned is the
  canonical lowercase key, so \<open>ADDED\<close> gives \<open>added\<close>. An index does give the key, but a
  name is looked up in upper case and then returned as it was typed: \<open>ADDED\<close> is
  accepted and comes back as \<open>ADDED\<close>.
\<close>

theorem validate_category_keeps_case:
  "validate_category ''ADDED'' = Inr ''ADDED'' \<and>
   validate_category ''ADDED'' \<noteq> Inr ''added'' \<and>
   validate_category ''1'' = Inr ''added''"
  by code_simp










section \<open>Properties of title validation\<close>

text \<open>
  C3, as stated: a title of white space only, tabs included, is rejected. The characters
  stripped are line feed, carriage return and space, so a title that is one tab is
  accepted and returned.
\<close>

theorem validate_title_tab_accepted: "validate_title [CHR 0x09] = Inr [CHR 0x09]"
  by (simp add: validate_title_def strip_def title_strip_chars_def)

text \<open>
  C3, amended: a title made of line feeds, carriage returns and spaces only (the empty
  title among them) is rejected with the empty title error. Any other title is returned
  without its leading and trailing line feeds, carriage returns and spaces: the result is
  not empty, it neither starts nor ends with one of the three, and the title is the result
  between a prefix and a suffix made of them.
\<close>

theorem validate_title_strips:
  "(set t \<subseteq> set title_strip_chars \<longrightarrow>
      validate_title t = Inl (BadParameter ''title cannot be empty'')) \<and>
   (\<not> set t \<subseteq> set title_strip_chars \<longrightarrow>
      (\<exists>pre suf r. t = pre @ r @ suf \<and>
         set pre \<subseteq> set title_strip_chars \<and> set suf \<subseteq> set title_strip_chars \<and>
         r \<noteq> [] \<and> hd r \<notin> set title_strip_chars \<and> last r \<notin> set title_strip_chars \<and>
         validate_title t = Inr r))"
proof (intro conjI impI)
  assume "set t \<subseteq> set title_strip_chars"
  then show "validate_title t = Inl (BadParameter ''title cannot be empty'')"
    by (simp add: validate_title_def strip_empty_iff)
next
  assume "\<not> set t \<subseteq> set title_strip_chars"
  then have ne: "strip t title_strip_chars \<noteq> []" by (simp add: strip_empty_iff)
  then have v: "validate_title t = Inr (strip t title_strip_chars)"
    by (simp add: validate_title_def)
  from strip_decomp [of t title_strip_chars] strip_ends [OF ne] ne v
  show "\<exists>pre suf r. t = pre @ r @ suf \<and>
         set pre \<subseteq> set title_strip_chars \<and> set suf \<subseteq> set title_strip_chars \<and>
         r \<noteq> [] \<and> hd r \<notin> set title_strip_chars \<and> last r \<notin> set title_strip_chars \<and>
         validate_title t = Inr r"
    by blast
qed

theorem validate_title_strips_witness:
  "validate_title [CHR 0x0A, CHR '' '', CHR 0x0D] = Inl (BadParameter ''title cannot be empty'') \<and>
   (\<exists>pre suf r. '' new  change '' = pre @ r @ suf \<and>
         set pre \<subseteq> set title_strip_chars \<and> set suf \<subseteq> set title_strip_chars \<and>
         r \<noteq> [] \<and> hd r \<notin> set title_strip_chars \<and> last r \<notin> set title_strip_chars \<and>
         validate_title '' new  change '' = Inr r)"
proof -
  have a: "set [CHR 0x0A, CHR '' '', CHR 0x0D] \<subseteq> set title_strip_chars"
    by (simp add: title_strip_chars_def)
  have b: "\<not> set '' new  change '' \<subseteq> set title_strip_chars"
    by (simp add: title_strip_chars_def)
  from validate_title_strips [of "[CHR 0x0A, CHR '' '', CHR 0x0D]"] a
    validate_title_strips [of "'' new  change ''"] b
  show ?thesis by blast
qed

section \<open>Properties of writing an entry\<close>

lemma open_write_X_exists:
  "nodes fs path \<noteq> None \<Longrightarrow>
   open_write fs path X content = (Inl FileExistsError, fs\<lparr>opened := opened fs @ [(path, X)]\<rparr>)"
  by (auto simp: open_write_def Let_def)

text \<open>
  C4. Without \<open>overwrite\<close>, writing non-empty content for a title whose file path is
  taken fails with the error that the entry already exists, and everything in the file
  system, the file at that path included, is as it was.
\<close>

theorem write_existing_entry_rejected:
  "content \<noteq> [] \<Longrightarrow> nodes fs (determine_filepath dirpath t) \<noteq> None \<Longrightarrow>
   fst (write_changelog_entry fs dirpath t (Some content) False) =
     Inl (ClickException
       (''Changelog entry '' @ os_path_basename (determine_filepath dirpath t) @
        '' already exists. Use '' @ [quote] @ ''--overwrite'' @ [quote] @ '' to replace it.'')) \<and>
   nodes (snd (write_changelog_entry fs dirpath t (Some content) False)) = nodes fs"
  by (simp add: write_changelog_entry_def store_entry_def Let_def open_write_X_exists
      exists_msg_def)

theorem write_existing_entry_rejected_witness:
  "''title: new'' \<noteq> [] \<and>
   nodes \<lparr>nodes = [''releases/unreleased/new-change.yml'' \<mapsto> File ''title: old''], opened = []\<rparr>
     (determine_filepath ''releases/unreleased'' ''new change'') \<noteq> None \<and>
   fst (write_changelog_entry
         \<lparr>nodes = [''releases/unreleased/new-change.yml'' \<mapsto> File ''title: old''], opened = []\<rparr>
         ''releases/unreleased'' ''new change'' (Some ''title: new'') False) =
     Inl (ClickException
       (''Changelog entry new-change.yml already exists. Use '' @ [quote] @ ''--overwrite'' @
        [quote] @ '' to replace it.'')) \<and>
   nodes (snd (write_changelog_entry
         \<lparr>nodes = [''releases/unreleased/new-change.yml'' \<mapsto> File ''title: old''], opened = []\<rparr>
         ''releases/unreleased'' ''new change'' (Some ''title: new'') False))
     ''releases/unreleased/new-change.yml'' = Some (File ''title: old'')"
proof -
  have p: "determine_filepath ''releases/unreleased'' ''new change'' =
             ''releases/unreleased/new-change.yml''"
    by code_simp
  have b: "os_path_basename ''releases/unreleased/new-change.yml'' = ''new-change.yml''"
    by code_simp
  have h1: "''title: new'' \<noteq> []" by simp
  have h2: "nodes \<lparr>nodes = [''releases/unreleased/new-change.yml'' \<mapsto> File ''title: old''],
                    opened = []\<rparr>
              (determine_filepath ''releases/unreleased'' ''new change'') \<noteq> None"
    by (simp add: p)
  show ?thesis
    using h1 h2 write_existing_entry_rejected [OF h1 h2] by (simp add: p b)
qed

text \<open>
  C5. Empty content is rejected with the empty entry error, with or without \<open>overwrite\<close>;
  the file system that comes back is the one that went in, its log of \<open>open\<close> calls
  included: nothing was accessed, created or changed.
\<close>

theorem write_empty_content_rejected:
  "write_changelog_entry fs dirpath t (Some []) overwrite =
     (Inl (ClickException ''Aborting due to empty entry content''), fs)"
  by (simp add: write_changelog_entry_def empty_entry_msg_def)

text \<open>
  C10. When the editor returns \<open>None\<close>, the content that reaches
  \<open>write_changelog_entry\<close> is \<open>None\<close>; it is rejected with the empty entry error, as the
  empty string is, and the file system is untouched.
\<close>

theorem write_absent_content_rejected:
  "create_changelog_entry_content scalar edit t c a p True = None \<Longrightarrow>
   write_changelog_entry fs dirpath t
       (create_changelog_entry_content scalar edit t c a p True) overwrite =
     (Inl (ClickException ''Aborting due to empty entry content''), fs) \<and>
   write_changelog_entry fs dirpath t
       (create_changelog_entry_content scalar edit t c a p True) overwrite =
     write_changelog_entry fs dirpath t (Some []) overwrite"
  by (simp add: write_changelog_entry_def empty_entry_msg_def)

theorem write_absent_content_rejected_witness:
  "create_changelog_entry_content id (\<lambda>s. None) ''new change'' ''added'' None None True = None \<and>
   write_changelog_entry \<lparr>nodes = Map.empty, opened = []\<rparr> ''releases/unreleased'' ''new change''
       (create_changelog_entry_content id (\<lambda>s. None) ''new change'' ''added'' None None True) False =
     (Inl (ClickException ''Aborting due to empty entry content''),
      \<lparr>nodes = Map.empty, opened = []\<rparr>)"
proof -
  have h: "create_changelog_entry_content id (\<lambda>s. None) ''new change'' ''added'' None None True
             = None"
    by (simp add: create_changelog_entry_content_def Let_def)
  show ?thesis
    using h write_absent_content_rejected
      [OF h, of "\<lparr>nodes = Map.empty, opened = []\<rparr>" "''releases/unreleased''" False]
    by simp
qed

section \<open>Properties of file names\<close>

lemma determine_filename_eq:
  "determine_filename t = take 94 (lower (replace_char CHR '' '' CHR ''-'' t)) @ ''.yml''"
  by (simp add: determine_filename_def slice0_def MAX_FILENAME_LENGTH_def
      YAML_FILE_EXTENSION_def)



lemma determine_filename_nth:
  "i < min (length t) 94 \<Longrightarrow>
   determine_filename t ! i = (if t ! i = CHR '' '' then CHR ''-'' else lower_char (t ! i))"
  by (simp add: determine_filename_eq nth_append lower_def replace_char_def lower_char_def)

lemma slash_kept:
  assumes "CHR ''/'' \<in> set (take 94 t)"
  shows "CHR ''/'' \<in> set (determine_filename t)"
proof -
  from assms obtain i where i: "i < length (take 94 t)" "take 94 t ! i = CHR ''/''"
    by (auto simp: in_set_conv_nth)
  then have j: "i < min (length t) 94" "t ! i = CHR ''/''" by simp_all
  then have "determine_filename t ! i = CHR ''/''"
    by (simp add: determine_filename_nth lower_char_def)
  moreover have "i < length (determine_filename t)"
    using j(1) by (auto simp: determine_filename_eq lower_def replace_char_def)
  ultimately show ?thesis by (metis nth_mem)
qed

text \<open>
  C9. Before the cut, the file name has at each position the character of the title in
  lower case, a hyphen for a space. So a slash among the first 94 characters of the title
  is a slash of the file name, and the path gets one more directory: for the title
  \<open>Fix a/b\<close> the file is \<open>b.yml\<close> in the directory \<open>fix-a\<close> of the entries directory.
  Writing it fails when that directory is missing, and puts the file there when it exists.
\<close>

theorem determine_filename_keeps_slash:
  "(i < min (length t) 94 \<longrightarrow>
      determine_filename t ! i = (if t ! i = CHR '' '' then CHR ''-'' else lower_char (t ! i))) \<and>
   (CHR ''/'' \<in> set (take 94 t) \<longrightarrow> CHR ''/'' \<in> set (determine_filename t)) \<and>
   determine_filepath ''/repo/releases/unreleased'' ''Fix a/b'' =
     ''/repo/releases/unreleased/fix-a/b.yml'' \<and>
   os_path_dirname (determine_filepath ''/repo/releases/unreleased'' ''Fix a/b'') =
     ''/repo/releases/unreleased/fix-a'' \<and>
   fst (write_changelog_entry
          \<lparr>nodes = [''/repo/releases/unreleased'' \<mapsto> Dir], opened = []\<rparr>
          ''/repo/releases/unreleased'' ''Fix a/b'' (Some ''title: Fix a/b'') False) =
     Inl FileNotFoundError \<and>
   fst (write_changelog_entry
          \<lparr>nodes = [''/repo/releases/unreleased'' \<mapsto> Dir,
                     ''/repo/releases/unreleased/fix-a'' \<mapsto> Dir], opened = []\<rparr>
          ''/repo/releases/unreleased'' ''Fix a/b'' (Some ''title: Fix a/b'') False) =
     Inr (created_msg ''b.yml'') \<and>
   nodes (snd (write_changelog_entry
          \<lparr>nodes = [''/repo/releases/unreleased'' \<mapsto> Dir,
                     ''/repo/releases/unreleased/fix-a'' \<mapsto> Dir], opened = []\<rparr>
          ''/repo/releases/unreleased'' ''Fix a/b'' (Some ''title: Fix a/b'') False))
     ''/repo/releases/unreleased/fix-a/b.yml'' = Some (File ''title: Fix a/b'')"
proof -
  have p: "determine_filepath ''/repo/releases/unreleased'' ''Fix a/b'' =
     ''/repo/releases/unreleased/fix-a/b.yml''"
    by code_simp
  have d: "os_path_dirname ''/repo/releases/unreleased/fix-a/b.yml'' =
     ''/repo/releases/unreleased/fix-a''"
    by code_simp
  have b: "os_path_basename ''/repo/releases/unreleased/fix-a/b.yml'' = ''b.yml''"
    by code_simp
  have w1: "fst (write_changelog_entry
          \<lparr>nodes = [''/repo/releases/unreleased'' \<mapsto> Dir], opened = []\<rparr>
          ''/repo/releases/unreleased'' ''Fix a/b'' (Some ''title: Fix a/b'') False) =
     Inl FileNotFoundError"
    by (simp add: write_changelog_entry_def store_entry_def open_write_def create_file_def
        parent_error_def Let_def p d b)
  have w2: "write_changelog_entry
          \<lparr>nodes = [''/repo/releases/unreleased'' \<mapsto> Dir,
                     ''/repo/releases/unreleased/fix-a'' \<mapsto> Dir], opened = []\<rparr>
          ''/repo/releases/unreleased'' ''Fix a/b'' (Some ''title: Fix a/b'') False =
     (Inr (created_msg ''b.yml''),
      \<lparr>nodes = [''/repo/releases/unreleased'' \<mapsto> Dir,
                 ''/repo/releases/unreleased/fix-a'' \<mapsto> Dir,
                 ''/repo/releases/unreleased/fix-a/b.yml'' \<mapsto> File ''title: Fix a/b''],
       opened = [(''/repo/releases/unreleased/fix-a/b.yml'', X)]\<rparr>)"
    by (simp add: write_changelog_entry_def store_entry_def open_write_def create_file_def
        parent_error_def Let_def p d b)
  show ?thesis
    using determine_filename_nth [of i t] slash_kept [of t] w1
    by (simp add: p d w2)
qed

theorem determine_filename_keeps_slash_witness:
  "(3::nat) < min (length ''Fix a/b'') 94 \<and> determine_filename ''Fix a/b'' ! 3 = CHR ''-'' \<and>
   CHR ''/'' \<in> set (take 94 ''Fix a/b'') \<and> CHR ''/'' \<in> set (determine_filename ''Fix a/b'')"
proof -
  have a: "(3::nat) < min (length ''Fix a/b'') 94" by simp
  have b: "CHR ''/'' \<in> set (take 94 ''Fix a/b'')" by simp
  have c: "''Fix a/b'' ! 3 = CHR '' ''" by simp
  from a b c determine_filename_keeps_slash [of 3 "''Fix a/b''"] show ?thesis by simp
qed

section \<open>Properties of serialization\<close>

text \<open>
  C7. The mapping of an entry has the keys \<open>title\<close>, \<open>category\<close>, \<open>author\<close>,
  \<open>pull_request\<close>, \<open>notes\<close> in this order, and its serialization has one line for each,
  in the same order; an optional field that is absent is written as \<open>null\<close>, not left
  out.
\<close>

theorem entry_serialization_order:
  "map fst (to_dict e) = [''title'', ''category'', ''author'', ''pull_request'', ''notes''] \<and>
   yaml_dump scalar (to_dict e) =
     ''---'' @ [newline] @
     ''title: '' @ scalar (title e) @ [newline] @
     ''category: '' @ scalar (category_key e) @ [newline] @
     ''author: '' @ yaml_value scalar (author e) @ [newline] @
     ''pull_request: '' @ yaml_value scalar (pr e) @ [newline] @
     ''notes: '' @ yaml_value scalar (notes' e) @ [newline] \<and>
   yaml_value scalar None = ''null'' \<and>
   create_changelog_entry_content scalar edit t c a p False =
     Some (yaml_dump scalar
       (to_dict \<lparr>title = t, category_key = c, author = a, pr = p, notes' = None\<rparr>))"
  by (simp add: to_dict_def yaml_dump_def yaml_item_def yaml_value_def
      create_changelog_entry_content_def)

end
